theory Spec2Isabelle
  imports Main
begin

section \<open>JavaScript values\<close>

text \<open>
  The client module and the server bootstrap files handle untyped JavaScript values:
  response bodies, filter objects, the properties of a thrown error. The values the
  code inspects are modelled by one datatype. Numbers are restricted to integers, and
  an object is the list of its own properties; reading a property takes the first
  binding of its name.
\<close>

datatype jsval =
    JUndefined
  | JNull
  | JBool bool
  | JNum int
  | JStr string
  | JObj "(string \<times> jsval) list"

text \<open>What \<^verbatim>\<open>if (v)\<close>, \<^verbatim>\<open>!v\<close> and \<^verbatim>\<open>v || w\<close> test.\<close>

fun truthy :: "jsval \<Rightarrow> bool" where
  "truthy JUndefined = False"
| "truthy JNull = False"
| "truthy (JBool b) = b"
| "truthy (JNum n) = (n \<noteq> 0)"
| "truthy (JStr s) = (s \<noteq> [])"
| "truthy (JObj kvs) = True"

text \<open>\<^verbatim>\<open>a || b\<close> on values.\<close>

definition js_or :: "jsval \<Rightarrow> jsval \<Rightarrow> jsval" where
  "js_or a b = (if truthy a then a else b)"

text \<open>Decimal notation of a number; \<open>digit_char\<close> is only applied to numbers below ten.\<close>

definition digit_char :: "nat \<Rightarrow> char" where
  "digit_char n = ''0123456789'' ! n"

fun nat_digits :: "nat \<Rightarrow> string" where
  "nat_digits n =
     (if n < 10 then [digit_char n] else nat_digits (n div 10) @ [digit_char (n mod 10)])"

declare nat_digits.simps [simp del]

definition int_to_string :: "int \<Rightarrow> string" where
  "int_to_string i = (if i < 0 then CHR ''-'' # nat_digits (nat (- i)) else nat_digits (nat i))"

text \<open>
  The string a template literal \<^verbatim>\<open>`${v}`\<close>, \<^verbatim>\<open>new Error(v)\<close> and
  \<^verbatim>\<open>URLSearchParams.append\<close> make of a value.
\<close>

fun js_to_string :: "jsval \<Rightarrow> string" where
  "js_to_string JUndefined = ''undefined''"
| "js_to_string JNull = ''null''"
| "js_to_string (JBool b) = (if b then ''true'' else ''false'')"
| "js_to_string (JNum n) = int_to_string n"
| "js_to_string (JStr s) = s"
| "js_to_string (JObj kvs) = ''[object Object]''"

text \<open>
  Property access \<^verbatim>\<open>v.k\<close>, for the property names this code reads (none of them a
  built-in property of a string, number or boolean). Reading a property of
  \<^verbatim>\<open>null\<close> or \<^verbatim>\<open>undefined\<close> throws a TypeError: the result \<open>None\<close>.
\<close>

fun get_prop :: "jsval \<Rightarrow> string \<Rightarrow> jsval option" where
  "get_prop JUndefined k = None"
| "get_prop JNull k = None"
| "get_prop (JObj kvs) k = Some (case map_of kvs k of None \<Rightarrow> JUndefined | Some v \<Rightarrow> v)"
| "get_prop v k = Some JUndefined"

text \<open>Optional chaining \<^verbatim>\<open>v?.k\<close>: \<^verbatim>\<open>undefined\<close> where the plain access would throw.\<close>

definition opt_prop :: "jsval \<Rightarrow> string \<Rightarrow> jsval" where
  "opt_prop v k = (case get_prop v k of None \<Rightarrow> JUndefined | Some w \<Rightarrow> w)"

text \<open>\<^verbatim>\<open>s.startsWith(p)\<close>.\<close>

definition startsWith :: "string \<Rightarrow> string \<Rightarrow> bool" where
  "startsWith s p = (take (length p) s = p)"


section \<open>The HTTP client wrapper\<close>

record http_response =
  status :: int
  data :: jsval

text \<open>
  The error an HTTP call is rejected with. \<open>response\<close> is \<open>None\<close> when no response was
  received (a network failure).
\<close>

record axios_error =
  message :: string
  response :: "http_response option"

text \<open>
  What an endpoint function can throw: the transport error itself, a fresh
  \<^verbatim>\<open>new Error(msg)\<close>, the TypeError of a property read on \<^verbatim>\<open>null\<close>/\<^verbatim>\<open>undefined\<close>, or a
  bare value (\<^verbatim>\<open>throw error.response?.data || error.message\<close>).
\<close>

datatype thrown =
    AxiosError axios_error
  | Error string
  | TypeError
  | Thrown jsval

record request =
  http_method :: string
  url :: string
  params :: jsval
  body :: jsval
  headers :: "string \<rightharpoonup> string"

text \<open>
  The browser state the module reads and writes: \<^verbatim>\<open>localStorage\<close>, the shared client's
  \<^verbatim>\<open>API.defaults.headers.common\<close>, and the assignments made to
  \<^verbatim>\<open>window.location.href\<close>, oldest first.
\<close>

record client =
  localStorage :: "string \<rightharpoonup> string"
  defaults_headers_common :: "string \<rightharpoonup> string"
  location_href :: "string list"

text \<open>
  The network together with the backend: it answers the request the client finally sends,
  with a response or with the error the call is rejected with.
\<close>

type_synonym server = "request \<Rightarrow> axios_error + http_response"

text \<open>The value the request interceptor computes for the header (lines 39-41).\<close>

definition bearer_header :: "string \<Rightarrow> string" where
  "bearer_header t = (if startsWith t ''Bearer '' then t else ''Bearer '' @ t)"

text \<open>
  The request interceptor. \<^verbatim>\<open>localStorage.getItem\<close> gives \<^verbatim>\<open>null\<close> for a missing key, and
  \<^verbatim>\<open>if (token)\<close> is false for \<^verbatim>\<open>null\<close> and for the empty string.
\<close>

definition request_interceptor :: "client \<Rightarrow> request \<Rightarrow> request" where
  "request_interceptor s config =
     (case localStorage s ''token'' of
        None \<Rightarrow> config
      | Some t \<Rightarrow>
          if t \<noteq> [] then config\<lparr>headers := (headers config)(''Authorization'' \<mapsto> bearer_header t)\<rparr>
          else config)"

definition handleUnauthorized :: "client \<Rightarrow> client" where
  "handleUnauthorized s =
     s\<lparr>localStorage := ((localStorage s)(''token'' := None))(''user'' := None),
       defaults_headers_common := (defaults_headers_common s)(''Authorization'' := None),
       location_href := location_href s @ [''/login'']\<rparr>"

text \<open>The response interceptor: its handler of a response, and its handler of an error.\<close>

definition response_fulfilled :: "http_response \<Rightarrow> http_response" where
  "response_fulfilled resp = resp"

text \<open>The error handler ends in \<^verbatim>\<open>Promise.reject(error)\<close>: the first component is the
  error the call is rejected with.\<close>

definition response_rejected :: "axios_error \<Rightarrow> client \<Rightarrow> axios_error \<times> client" where
  "response_rejected err s =
     (err, if map_option status (response err) = Some 401 then handleUnauthorized s else s)"

text \<open>
  A call through the shared client \<^verbatim>\<open>API\<close>: the instance's default headers are merged
  under the call's own, the request interceptor runs, the request is sent, and the
  response interceptor handles the outcome.
\<close>

definition API_config :: "client \<Rightarrow> request \<Rightarrow> request" where
  "API_config s config =
     config\<lparr>headers :=
       (defaults_headers_common s ++ [''Content-Type'' \<mapsto> ''application/json'']) ++ headers config\<rparr>"

definition API_request :: "server \<Rightarrow> request \<Rightarrow> client \<Rightarrow> (axios_error + http_response) \<times> client" where
  "API_request srv config s =
     (case srv (request_interceptor s (API_config s config)) of
        Inr resp \<Rightarrow> (Inr (response_fulfilled resp), s)
      | Inl err \<Rightarrow> (case response_rejected err s of (e, s') \<Rightarrow> (Inl e, s')))"


text \<open>The request that reaches the network for a call's configuration.\<close>

definition sent :: "client \<Rightarrow> request \<Rightarrow> request" where
  "sent s config = request_interceptor s (API_config s config)"

text \<open>\<^verbatim>\<open>API.get(u, { params: ps })\<close> and \<^verbatim>\<open>API.post(u, d)\<close>.\<close>

definition get_config :: "string \<Rightarrow> jsval \<Rightarrow> request" where
  "get_config u ps =
     \<lparr>http_method = ''get'', url = u, params = ps, body = JUndefined, headers = Map.empty\<rparr>"

definition post_config :: "string \<Rightarrow> jsval \<Rightarrow> request" where
  "post_config u d =
     \<lparr>http_method = ''post'', url = u, params = JUndefined, body = d, headers = Map.empty\<rparr>"

definition API_get ::
  "server \<Rightarrow> string \<Rightarrow> jsval \<Rightarrow> client \<Rightarrow> (axios_error + http_response) \<times> client" where
  "API_get srv u ps s = API_request srv (get_config u ps) s"

definition API_post ::
  "server \<Rightarrow> string \<Rightarrow> jsval \<Rightarrow> client \<Rightarrow> (axios_error + http_response) \<times> client" where
  "API_post srv u d s = API_request srv (post_config u d) s"


section \<open>Endpoint functions\<close>

text \<open>
  Each function returns what the caller observes, \<open>Inr\<close> the value returned and \<open>Inl\<close> the
  value thrown, together with the browser state it leaves. Console output is left out.
\<close>

text \<open>\<^verbatim>\<open>error.response\<close> of a caught error: only a transport error has one.\<close>

fun error_response :: "thrown \<Rightarrow> http_response option" where
  "error_response (AxiosError e) = response e"
| "error_response other = None"

text \<open>\<^verbatim>\<open>error.response?.data\<close>.\<close>

definition response_data :: "http_response option \<Rightarrow> jsval" where
  "response_data r = (case r of None \<Rightarrow> JUndefined | Some resp \<Rightarrow> data resp)"

text \<open>\<^verbatim>\<open>error.response?.data || error.message\<close>.\<close>

definition data_or_message :: "axios_error \<Rightarrow> jsval" where
  "data_or_message err = js_or (response_data (response err)) (JStr (message err))"

text \<open>The catch block of \<^verbatim>\<open>registerOrganization\<close>: it receives whatever the try block threw.\<close>

definition registerOrganization_catch :: "thrown \<Rightarrow> thrown" where
  "registerOrganization_catch error =
     (let msg = opt_prop (response_data (error_response error)) ''msg''
      in if truthy msg then Error (js_to_string msg)
         else Error ''Failed to register organization. Please try again.'')"

definition registerOrganization :: "server \<Rightarrow> jsval \<Rightarrow> client \<Rightarrow> (thrown + jsval) \<times> client" where
  "registerOrganization srv organizationData s =
     (case API_post srv ''/organizations/register'' organizationData s of
        (Inl err, s') \<Rightarrow> (Inl (registerOrganization_catch (AxiosError err)), s')
      | (Inr resp, s') \<Rightarrow>
          (case get_prop (data resp) ''organizationId'' of
             None \<Rightarrow> (Inl (registerOrganization_catch TypeError), s')
           | Some oid \<Rightarrow>
               if \<not> truthy oid
               then (Inl (registerOrganization_catch
                            (Error ''Organization ID not received in response'')), s')
               else (Inr (data resp), s')))"

record session =
  token :: string
  role :: jsval
  email :: jsval
  userId :: jsval
  firstName :: jsval
  lastName :: jsval
  organizationId :: jsval
  departmentId :: jsval
  isAuthenticated :: bool

text \<open>
  \<^verbatim>\<open>loginUser\<close>. Destructuring \<^verbatim>\<open>response.data\<close> throws a TypeError when it is
  \<^verbatim>\<open>null\<close> or \<^verbatim>\<open>undefined\<close>; the catch block rethrows what it caught.
\<close>

definition loginUser ::
  "server \<Rightarrow> jsval \<Rightarrow> jsval \<Rightarrow> jsval \<Rightarrow> client \<Rightarrow> (thrown + session) \<times> client" where
  "loginUser srv email' password organizationId' s =
     (case API_post srv ''/auth/login''
             (JObj [(''email'', email'), (''password'', password),
                    (''organizationId'', organizationId')]) s of
        (Inl err, s') \<Rightarrow> (Inl (AxiosError err), s')
      | (Inr resp, s') \<Rightarrow>
          (case get_prop (data resp) ''token'' of
             None \<Rightarrow> (Inl TypeError, s')
           | Some tok \<Rightarrow>
               (let fullToken = ''Bearer '' @ js_to_string tok
                in (Inr \<lparr>token = fullToken,
                         role = opt_prop (data resp) ''role'',
                         email = email',
                         userId = opt_prop (data resp) ''userId'',
                         firstName = opt_prop (data resp) ''firstName'',
                         lastName = opt_prop (data resp) ''lastName'',
                         organizationId = organizationId',
                         departmentId = opt_prop (data resp) ''departmentId'',
                         isAuthenticated = True\<rparr>,
                    s'\<lparr>localStorage := (localStorage s')(''token'' \<mapsto> fullToken)\<rparr>))))"

definition logoutUser :: "server \<Rightarrow> client \<Rightarrow> (thrown + jsval) \<times> client" where
  "logoutUser srv s =
     (case API_post srv ''/auth/logout'' JUndefined s of
        (Inr resp, s') \<Rightarrow>
          (Inr JUndefined,
           s'\<lparr>localStorage := ((localStorage s')(''token'' := None))(''user'' := None),
              defaults_headers_common := (defaults_headers_common s')(''Authorization'' := None)\<rparr>)
      | (Inl err, s') \<Rightarrow>
          (Inl (AxiosError err),
           s'\<lparr>localStorage := ((localStorage s')(''token'' := None))(''user'' := None),
              defaults_headers_common := (defaults_headers_common s')(''Authorization'' := None)\<rparr>))"

text \<open>A default parameter \<^verbatim>\<open>(x = {})\<close> replaces \<^verbatim>\<open>undefined\<close> only.\<close>

definition default_empty :: "jsval \<Rightarrow> jsval" where
  "default_empty v = (if v = JUndefined then JObj [] else v)"

definition getComplaints :: "server \<Rightarrow> jsval \<Rightarrow> client \<Rightarrow> (thrown + jsval) \<times> client" where
  "getComplaints srv filters s =
     (case API_get srv ''/complaints'' (default_empty filters) s of
        (Inr resp, s') \<Rightarrow> (Inr (data resp), s')
      | (Inl err, s') \<Rightarrow> (Inl (Thrown (data_or_message err)), s'))"

definition getNotifications :: "server \<Rightarrow> jsval \<Rightarrow> client \<Rightarrow> (thrown + jsval) \<times> client" where
  "getNotifications srv ps s =
     (case API_get srv ''/notifications'' (default_empty ps) s of
        (Inr resp, s') \<Rightarrow> (Inr (data resp), s')
      | (Inl err, s') \<Rightarrow> (Inl (AxiosError err), s'))"

definition getWorkflowForComplaint :: "server \<Rightarrow> jsval \<Rightarrow> client \<Rightarrow> (thrown + jsval) \<times> client" where
  "getWorkflowForComplaint srv complaintId s =
     (case API_get srv (''/workflows/complaint/'' @ js_to_string complaintId) JUndefined s of
        (Inr resp, s') \<Rightarrow> (Inr (data resp), s')
      | (Inl err, s') \<Rightarrow>
          if map_option status (response err) = Some 404 then (Inr JNull, s')
          else (Inl (Thrown (data_or_message err)), s'))"

definition getFeedbackByComplaint :: "server \<Rightarrow> jsval \<Rightarrow> client \<Rightarrow> (thrown + jsval) \<times> client" where
  "getFeedbackByComplaint srv complaintId s =
     (case API_get srv (''/feedback/complaint/'' @ js_to_string complaintId) JUndefined s of
        (Inr resp, s') \<Rightarrow> (Inr (data resp), s')
      | (Inl err, s') \<Rightarrow>
          if map_option status (response err) = Some 404 then (Inr JNull, s')
          else (Inl (AxiosError err), s'))"


text \<open>
  \<^verbatim>\<open>URLSearchParams\<close>: the list of the pairs appended, and its serialisation
  (\<^verbatim>\<open>toString\<close>) in the form-urlencoded format: letters, digits and \<^verbatim>\<open>*-._\<close> stay, a space
  becomes \<^verbatim>\<open>+\<close>, every other byte becomes \<^verbatim>\<open>%XX\<close>. \<open>hex_char\<close> is only applied to
  the two halves of a byte, numbers below sixteen.
\<close>

definition form_unreserved :: "char \<Rightarrow> bool" where
  "form_unreserved c =
     (c \<in> set ''ABCDEFGHIJKLMNOPQRSTUVWXYZabcdefghijklmnopqrstuvwxyz0123456789*-._'')"

definition hex_char :: "nat \<Rightarrow> char" where
  "hex_char n = ''0123456789ABCDEF'' ! n"

definition form_encode_char :: "char \<Rightarrow> string" where
  "form_encode_char c =
     (if form_unreserved c then [c]
      else if c = CHR 0x20 then ''+''
      else [CHR ''%'', hex_char ((of_char c :: nat) div 16), hex_char ((of_char c :: nat) mod 16)])"

definition form_encode :: "string \<Rightarrow> string" where
  "form_encode str = concat (map form_encode_char str)"

fun URLSearchParams_toString :: "(string \<times> string) list \<Rightarrow> string" where
  "URLSearchParams_toString [] = []"
| "URLSearchParams_toString [(k, v)] = form_encode k @ ''='' @ form_encode v"
| "URLSearchParams_toString ((k, v) # kv # rest) =
     form_encode k @ ''='' @ form_encode v @ ''&'' @ URLSearchParams_toString (kv # rest)"

text \<open>\<^verbatim>\<open>if (params.k) queryParams.append('k', params.k)\<close>; \<open>None\<close> is the TypeError of the
  property read.\<close>

definition append_if_set ::
  "jsval \<Rightarrow> string \<Rightarrow> (string \<times> string) list \<Rightarrow> (string \<times> string) list option" where
  "append_if_set ps k q =
     (case get_prop ps k of
        None \<Rightarrow> None
      | Some v \<Rightarrow> Some (if truthy v then q @ [(k, js_to_string v)] else q))"

definition getAllFeedback_queryParams :: "jsval \<Rightarrow> (string \<times> string) list option" where
  "getAllFeedback_queryParams ps =
     Option.bind (append_if_set ps ''page'' []) (\<lambda>q1.
     Option.bind (append_if_set ps ''limit'' q1) (\<lambda>q2.
     Option.bind (append_if_set ps ''rating'' q2) (\<lambda>q3.
     append_if_set ps ''department'' q3)))"

definition getAllFeedback :: "server \<Rightarrow> jsval \<Rightarrow> client \<Rightarrow> (thrown + jsval) \<times> client" where
  "getAllFeedback srv ps s =
     (case getAllFeedback_queryParams (default_empty ps) of
        None \<Rightarrow> (Inl TypeError, s)
      | Some queryParams \<Rightarrow>
          (case API_get srv (''/feedback?'' @ URLSearchParams_toString queryParams) JUndefined s of
             (Inr resp, s') \<Rightarrow> (Inr (data resp), s')
           | (Inl err, s') \<Rightarrow> (Inl (AxiosError err), s')))"

definition getFeedbackByDepartment_queryParams :: "jsval \<Rightarrow> (string \<times> string) list option" where
  "getFeedbackByDepartment_queryParams ps =
     Option.bind (append_if_set ps ''page'' []) (\<lambda>q1.
     Option.bind (append_if_set ps ''limit'' q1) (\<lambda>q2.
     append_if_set ps ''rating'' q2))"

definition getFeedbackByDepartment ::
  "server \<Rightarrow> jsval \<Rightarrow> jsval \<Rightarrow> client \<Rightarrow> (thrown + jsval) \<times> client" where
  "getFeedbackByDepartment srv departmentId' ps s =
     (case getFeedbackByDepartment_queryParams (default_empty ps) of
        None \<Rightarrow> (Inl TypeError, s)
      | Some queryParams \<Rightarrow>
          (case API_get srv (''/feedback/department/'' @ js_to_string departmentId' @ ''?''
                               @ URLSearchParams_toString queryParams) JUndefined s of
             (Inr resp, s') \<Rightarrow> (Inr (data resp), s')
           | (Inl err, s') \<Rightarrow> (Inl (AxiosError err), s')))"


text \<open>
  \<^verbatim>\<open>fetchAddressSuggestions\<close> does not go through the shared client: it calls the
  third-party geocoder with \<^verbatim>\<open>axios.get\<close> itself, and the interceptors above are installed
  on \<^verbatim>\<open>API\<close> only. \<^verbatim>\<open>REACT_APP_OPENCAGE_API_KEY\<close> is the environment variable (\<open>None\<close>
  when unset). Reading \<^verbatim>\<open>results\<close> of a \<^verbatim>\<open>null\<close> body throws inside the try block, and the
  catch block replaces whatever it catches by a fresh Error.
\<close>

definition OPENCAGE_API_URL :: string where
  "OPENCAGE_API_URL = ''https://api.opencagedata.com/geocode/v1/json''"

definition fetchAddressSuggestions_config :: "string option \<Rightarrow> jsval \<Rightarrow> request" where
  "fetchAddressSuggestions_config REACT_APP_OPENCAGE_API_KEY input =
     \<lparr>http_method = ''get'', url = OPENCAGE_API_URL,
      params = JObj [(''q'', input),
                     (''key'', case REACT_APP_OPENCAGE_API_KEY of
                                 None \<Rightarrow> JUndefined | Some k \<Rightarrow> JStr k),
                     (''limit'', JNum 5)],
      body = JUndefined, headers = Map.empty\<rparr>"

definition fetchAddressSuggestions ::
  "server \<Rightarrow> string option \<Rightarrow> jsval \<Rightarrow> client \<Rightarrow> (thrown + jsval) \<times> client" where
  "fetchAddressSuggestions geocoder REACT_APP_OPENCAGE_API_KEY input s =
     (case geocoder (fetchAddressSuggestions_config REACT_APP_OPENCAGE_API_KEY input) of
        Inr resp \<Rightarrow>
          (case get_prop (data resp) ''results'' of
             None \<Rightarrow>
               (Inl (Error ''Failed to fetch address suggestions. Please try again.''), s)
           | Some results \<Rightarrow> (Inr results, s))
      | Inl err \<Rightarrow>
          (Inl (Error ''Failed to fetch address suggestions. Please try again.''), s))"


section \<open>The application server\<close>

text \<open>
  The three bootstrap files of \<^verbatim>\<open>src/server.js\<close>, in the order they appear there. Each is
  modelled by its \<^verbatim>\<open>app.use(prefix, handler)\<close> calls, in registration order. The body
  parsers and the CORS middleware carry no path, and the single-path routes
  (\<^verbatim>\<open>app.get('/')\<close>, \<^verbatim>\<open>app.get('/api/health')\<close>) match that one path only.
\<close>

datatype handler =
    uploadsStatic
  | organizationRoutes
  | authRoutes
  | userRoutes
  | departmentRoutes
  | complaintTypeRoutes
  | complaintRoutes
  | workflowRoutes
  | notificationRoutes
  | feedbackRoutes

definition bootstrap1_mounts :: "(string \<times> handler) list" where
  "bootstrap1_mounts =
     [(''/uploads'', uploadsStatic),
      (''/api/organizations'', organizationRoutes),
      (''/api/auth'', authRoutes),
      (''/api/users'', userRoutes),
      (''/api/departments'', departmentRoutes),
      (''/api/complaints/types'', complaintTypeRoutes),
      (''/api/complaints'', complaintRoutes),
      (''/api/workflows'', workflowRoutes),
      (''/api/notifications'', notificationRoutes),
      (''/api/feedback'', feedbackRoutes)]"

definition bootstrap2_mounts :: "(string \<times> handler) list" where
  "bootstrap2_mounts =
     [(''/uploads'', uploadsStatic),
      (''/api/organizations'', organizationRoutes),
      (''/api/auth'', authRoutes),
      (''/api/users'', userRoutes),
      (''/api/departments'', departmentRoutes),
      (''/api/complaints/types'', complaintTypeRoutes),
      (''/api/complaints'', complaintRoutes),
      (''/api/workflows'', workflowRoutes),
      (''/api/notifications'', notificationRoutes),
      (''/api/feedback'', feedbackRoutes)]"

definition bootstrap3_mounts :: "(string \<times> handler) list" where
  "bootstrap3_mounts =
     [(''/uploads'', uploadsStatic),
      (''/api/organizations'', organizationRoutes),
      (''/api/auth'', authRoutes),
      (''/api/users'', userRoutes),
      (''/api/departments'', departmentRoutes),
      (''/api/complaints/types'', complaintTypeRoutes),
      (''/api/complaints'', complaintRoutes),
      (''/api/workflows'', workflowRoutes),
      (''/api/notifications'', notificationRoutes),
      (''/api/feedback'', feedbackRoutes)]"

definition bootstraps :: "(string \<times> handler) list list" where
  "bootstraps = [bootstrap1_mounts, bootstrap2_mounts, bootstrap3_mounts]"

text \<open>
  How Express matches a mount path against a request path: without regard to the case of
  letters, and only at a segment boundary, so the path is the prefix itself or goes on
  with \<^verbatim>\<open>/\<close>.
\<close>

definition ascii_lower :: "char \<Rightarrow> char" where
  "ascii_lower c =
     (case map_of (zip ''ABCDEFGHIJKLMNOPQRSTUVWXYZ'' ''abcdefghijklmnopqrstuvwxyz'') c of
        None \<Rightarrow> c
      | Some l \<Rightarrow> l)"

definition mount_matches :: "string \<Rightarrow> string \<Rightarrow> bool" where
  "mount_matches prefix path =
     (take (length prefix) (map ascii_lower path) = map ascii_lower prefix
      \<and> (case drop (length prefix) path of [] \<Rightarrow> True | c # rest \<Rightarrow> c = CHR ''/''))"

text \<open>A request is handed to the first mount, in registration order, that matches its path.\<close>

fun dispatch :: "(string \<times> handler) list \<Rightarrow> string \<Rightarrow> handler option" where
  "dispatch [] path = None"
| "dispatch ((prefix, h) # mounts) path =
     (if mount_matches prefix path then Some h else dispatch mounts path)"







section \<open>Properties named by the specification\<close>

text \<open>
  How many times the bearer-scheme marker is repeated at the head of a string: the
  specification's "prefixed exactly once" is \<open>bearer_prefix_count v = 1\<close>.
\<close>

function bearer_prefix_count :: "string \<Rightarrow> nat" where
  "bearer_prefix_count v =
     (if startsWith v ''Bearer '' then Suc (bearer_prefix_count (drop 7 v)) else 0)"
  by pat_completeness auto
termination
proof (relation "measure length")
  show "wf (measure length)" by simp
next
  fix v :: string
  assume "startsWith v ''Bearer ''"
  then have "take (length ''Bearer '') v = ''Bearer ''"
    unfolding startsWith_def .
  then have "length (take (length ''Bearer '') v) = length ''Bearer ''"
    by (rule arg_cong)
  then have "7 \<le> length v" by simp
  then show "(drop 7 v, v) \<in> measure length" by simp
qed

declare bearer_prefix_count.simps [simp del]

text \<open>
  The pairs that reading the listed keys of a params object one after the other appends
  to the query: a key contributes its value, as a string, when the value is truthy.
\<close>

definition forwarded :: "string list \<Rightarrow> jsval \<Rightarrow> (string \<times> string) list" where
  "forwarded keys ps =
     concat (map (\<lambda>k. if truthy (opt_prop ps k) then [(k, js_to_string (opt_prop ps k))] else [])
               keys)"

text \<open>Whether \<open>a\<close> is registered before \<open>b\<close> in a list of registrations.\<close>

fun registered_before :: "'a \<Rightarrow> 'a \<Rightarrow> 'a list \<Rightarrow> bool" where
  "registered_before a b [] = False"
| "registered_before a b (x # xs) =
     (if x = b then False else if x = a then b \<in> set xs else registered_before a b xs)"



section \<open>The bearer prefix\<close>

lemma startsWith_bearer_header: "startsWith (bearer_header t) ''Bearer ''"
  by (simp add: bearer_header_def startsWith_def)

lemma bearer_header_idem: "bearer_header (bearer_header t) = bearer_header t"
  using startsWith_bearer_header [of t] by (simp add: bearer_header_def)

lemma bearer_prefix_count_append: "bearer_prefix_count (''Bearer '' @ t) = Suc (bearer_prefix_count t)"
  by (subst bearer_prefix_count.simps) (simp add: startsWith_def)

lemma bearer_prefix_count_pos: "startsWith t ''Bearer '' \<Longrightarrow> 0 < bearer_prefix_count t"
  by (subst bearer_prefix_count.simps) simp

lemma bearer_prefix_count_zero: "\<not> startsWith t ''Bearer '' \<Longrightarrow> bearer_prefix_count t = 0"
  by (subst bearer_prefix_count.simps) simp

lemma bearer_prefix_count_header:
  "bearer_prefix_count (bearer_header t) = max 1 (bearer_prefix_count t)"
proof (cases "startsWith t ''Bearer ''")
  case True
  then show ?thesis using bearer_prefix_count_pos [OF True] by (simp add: bearer_header_def)
next
  case False
  then show ?thesis
    using bearer_prefix_count_append [of t] bearer_prefix_count_zero [OF False]
    by (simp add: bearer_header_def)
qed

text \<open>
  An input at which the header is not the one C1 describes: for the empty string as the
  persisted token the interceptor sets no header at all (where the claim has
  \<^verbatim>\<open>'Bearer '\<close>), and a persisted token that already repeats the marker is passed on
  with both of its prefixes.
\<close>

theorem request_interceptor_counterexample:
  "headers (request_interceptor
       \<lparr>localStorage = [''token'' \<mapsto> ''''], defaults_headers_common = Map.empty,
        location_href = []\<rparr>
       (get_config ''/users'' JUndefined)) ''Authorization'' = None
   \<and> headers (request_interceptor
       \<lparr>localStorage = [''token'' \<mapsto> ''Bearer Bearer abc''],
        defaults_headers_common = Map.empty, location_href = []\<rparr>
       (get_config ''/users'' JUndefined)) ''Authorization'' = Some ''Bearer Bearer abc''
   \<and> bearer_prefix_count ''Bearer Bearer abc'' = 2"
  by (simp add: request_interceptor_def get_config_def bearer_header_def startsWith_def
        bearer_prefix_count.simps)

text \<open>
  C1, as the code has it: for every persisted token that is not the empty string, the
  request interceptor sets the Authorization header to the token itself when it starts
  with \<^verbatim>\<open>'Bearer '\<close> and to \<^verbatim>\<open>'Bearer '\<close> followed by the token otherwise; with no
  persisted token, or the empty string, it leaves the request as it is. The value
  computed always starts with the marker, computing it twice gives the same as computing
  it once, and it repeats the marker as often as the token does, but at least once: so
  exactly once for every token that carries the marker at most once.
\<close>

theorem request_interceptor_authorization:
  "(localStorage s ''token'' = Some t \<and> t \<noteq> [] \<longrightarrow>
      headers (request_interceptor s config) ''Authorization''
        = Some (if startsWith t ''Bearer '' then t else ''Bearer '' @ t))
   \<and> (localStorage s ''token'' = None \<or> localStorage s ''token'' = Some [] \<longrightarrow>
        request_interceptor s config = config)
   \<and> startsWith (bearer_header t) ''Bearer ''
   \<and> bearer_header (bearer_header t) = bearer_header t
   \<and> bearer_prefix_count (bearer_header t) = max 1 (bearer_prefix_count t)"
proof -
  have a: "localStorage s ''token'' = Some t \<and> t \<noteq> [] \<longrightarrow>
      headers (request_interceptor s config) ''Authorization''
        = Some (if startsWith t ''Bearer '' then t else ''Bearer '' @ t)"
    by (simp add: request_interceptor_def bearer_header_def)
  have b: "localStorage s ''token'' = None \<or> localStorage s ''token'' = Some [] \<longrightarrow>
        request_interceptor s config = config"
    by (auto simp: request_interceptor_def)
  show ?thesis
    using a b startsWith_bearer_header bearer_header_idem bearer_prefix_count_header
    by blast
qed

theorem request_interceptor_authorization_witness:
  "headers (request_interceptor
       \<lparr>localStorage = [''token'' \<mapsto> ''abc''], defaults_headers_common = Map.empty,
        location_href = []\<rparr>
       (get_config ''/users'' JUndefined)) ''Authorization'' = Some ''Bearer abc''
   \<and> request_interceptor
       \<lparr>localStorage = Map.empty, defaults_headers_common = Map.empty, location_href = []\<rparr>
       (get_config ''/users'' JUndefined) = get_config ''/users'' JUndefined
   \<and> bearer_header (bearer_header ''abc'') = bearer_header ''abc''
   \<and> bearer_prefix_count (bearer_header ''abc'') = 1"
  using request_interceptor_authorization
          [of "\<lparr>localStorage = [''token'' \<mapsto> ''abc''], defaults_headers_common = Map.empty,
                location_href = []\<rparr>" "''abc''" "get_config ''/users'' JUndefined"]
        request_interceptor_authorization
          [of "\<lparr>localStorage = Map.empty, defaults_headers_common = Map.empty,
                location_href = []\<rparr>" "''abc''" "get_config ''/users'' JUndefined"]
  by (simp add: startsWith_def bearer_prefix_count.simps)


section \<open>Session teardown on 401\<close>

lemma handleUnauthorized_effect:
  "localStorage (handleUnauthorized s) ''token'' = None
   \<and> localStorage (handleUnauthorized s) ''user'' = None
   \<and> defaults_headers_common (handleUnauthorized s) ''Authorization'' = None
   \<and> location_href (handleUnauthorized s) = location_href s @ [''/login'']"
  by (simp add: handleUnauthorized_def)

lemma handleUnauthorized_empty:
  "dom (localStorage s) \<subseteq> {''token'', ''user''} \<Longrightarrow> localStorage (handleUnauthorized s) = Map.empty"
  by (rule ext) (auto simp: handleUnauthorized_def)

lemma API_request_sent:
  "API_request srv config s =
     (case srv (sent s config) of
        Inr resp \<Rightarrow> (Inr resp, s)
      | Inl err \<Rightarrow>
          (Inl err, if map_option status (response err) = Some 401 then handleUnauthorized s else s))"
  by (simp add: API_request_def sent_def response_rejected_def response_fulfilled_def
        split: sum.splits)

lemma API_request_rejected:
  "srv (sent s config) = Inl err \<Longrightarrow>
     API_request srv config s
       = (Inl err, if map_option status (response err) = Some 401 then handleUnauthorized s else s)"
  by (simp add: API_request_def sent_def response_rejected_def)

lemma API_request_fulfilled:
  "srv (sent s config) = Inr resp \<Longrightarrow> API_request srv config s = (Inr resp, s)"
  by (simp add: API_request_def sent_def response_fulfilled_def)

lemma handleUnauthorized_others:
  "k \<noteq> ''token'' \<Longrightarrow> k \<noteq> ''user'' \<Longrightarrow>
     localStorage (handleUnauthorized s) k = localStorage s k"
  by (simp add: handleUnauthorized_def)

lemma handleUnauthorized_empty_iff:
  "localStorage (handleUnauthorized s) = Map.empty
     \<longleftrightarrow> dom (localStorage s) \<subseteq> {''token'', ''user''}"
proof
  assume e: "localStorage (handleUnauthorized s) = Map.empty"
  show "dom (localStorage s) \<subseteq> {''token'', ''user''}"
  proof
    fix k assume k: "k \<in> dom (localStorage s)"
    show "k \<in> {''token'', ''user''}"
    proof (rule ccontr)
      assume "k \<notin> {''token'', ''user''}"
      then have "localStorage (handleUnauthorized s) k = localStorage s k"
        by (simp add: handleUnauthorized_others)
      with e k show False by auto
    qed
  qed
next
  assume "dom (localStorage s) \<subseteq> {''token'', ''user''}"
  then show "localStorage (handleUnauthorized s) = Map.empty"
    by (rule handleUnauthorized_empty)
qed

lemma fetchAddressSuggestions_state:
  "snd (fetchAddressSuggestions geocoder key input s) = s"
  by (simp add: fetchAddressSuggestions_def split: sum.splits option.splits)

lemma fetchAddressSuggestions_rejected:
  "geocoder (fetchAddressSuggestions_config key input) = Inl e \<Longrightarrow>
     fst (fetchAddressSuggestions geocoder key input s)
       = Inl (Error ''Failed to fetch address suggestions. Please try again.'')"
  by (simp add: fetchAddressSuggestions_def)

text \<open>
  Inputs at which a 401 is not followed by what C2 describes. The geocoder answers the
  call of \<^verbatim>\<open>fetchAddressSuggestions\<close> with a response of status 401: the \<^verbatim>\<open>token\<close> and
  \<^verbatim>\<open>user\<close> entries and the default header stay, nothing is assigned to the location, and
  the caller gets a fresh Error, not the error of the call. And a call through the shared
  client that is answered with 401 leaves the storage entry \<^verbatim>\<open>theme\<close> in place: the
  storage is not empty afterwards.
\<close>

theorem unauthorized_teardown_counterexample:
  "fetchAddressSuggestions
     (\<lambda>rq. Inl \<lparr>message = ''Request failed with status code 401'',
                 response = Some \<lparr>status = 401, data = JNull\<rparr>\<rparr>)
     (Some ''k'') (JStr ''Main St'')
     \<lparr>localStorage = [''token'' \<mapsto> ''Bearer abc'', ''user'' \<mapsto> ''u''],
      defaults_headers_common = [''Authorization'' \<mapsto> ''Bearer abc''],
      location_href = []\<rparr>
   = (Inl (Error ''Failed to fetch address suggestions. Please try again.''),
      \<lparr>localStorage = [''token'' \<mapsto> ''Bearer abc'', ''user'' \<mapsto> ''u''],
       defaults_headers_common = [''Authorization'' \<mapsto> ''Bearer abc''],
       location_href = []\<rparr>)
   \<and> localStorage (snd (API_request
        (\<lambda>rq. Inl \<lparr>message = ''Request failed with status code 401'',
                    response = Some \<lparr>status = 401, data = JNull\<rparr>\<rparr>)
        (get_config ''/users'' JUndefined)
        \<lparr>localStorage = [''token'' \<mapsto> ''Bearer abc'', ''theme'' \<mapsto> ''dark''],
         defaults_headers_common = Map.empty, location_href = []\<rparr>)) ''theme''
     = Some ''dark''"
  by (simp add: fetchAddressSuggestions_def API_request_def response_rejected_def
        handleUnauthorized_def)

text \<open>
  C2, as the code has it: when a call through the shared client \<^verbatim>\<open>API\<close> is rejected with
  a response of status 401, the response interceptor removes the \<^verbatim>\<open>token\<close> and \<^verbatim>\<open>user\<close>
  entries of the storage and keeps every other entry (so the storage is empty afterwards
  exactly when it held nothing else), deletes the default Authorization header, assigns
  \<^verbatim>\<open>/login\<close> to the location exactly once, and the call is still rejected with the
  original error. \<^verbatim>\<open>fetchAddressSuggestions\<close>, the one endpoint function that calls
  \<^verbatim>\<open>axios\<close> directly, never changes the browser state, and when its call fails, with
  whatever status, it throws a fresh Error with its fixed message.
\<close>

theorem unauthorized_teardown:
  assumes "srv (sent s config) = Inl err" and "response err = Some r" and "status r = 401"
  shows "response_rejected err s = (err, handleUnauthorized s)
    \<and> API_request srv config s = (Inl err, handleUnauthorized s)
    \<and> localStorage (handleUnauthorized s) ''token'' = None
    \<and> localStorage (handleUnauthorized s) ''user'' = None
    \<and> (\<forall>k. k \<noteq> ''token'' \<and> k \<noteq> ''user'' \<longrightarrow>
          localStorage (handleUnauthorized s) k = localStorage s k)
    \<and> (localStorage (handleUnauthorized s) = Map.empty
          \<longleftrightarrow> dom (localStorage s) \<subseteq> {''token'', ''user''})
    \<and> defaults_headers_common (handleUnauthorized s) ''Authorization'' = None
    \<and> location_href (handleUnauthorized s) = location_href s @ [''/login'']
    \<and> snd (fetchAddressSuggestions geocoder key input s) = s
    \<and> (geocoder (fetchAddressSuggestions_config key input) = Inl e \<longrightarrow>
          fst (fetchAddressSuggestions geocoder key input s)
            = Inl (Error ''Failed to fetch address suggestions. Please try again.''))"
proof -
  have "API_request srv config s = (Inl err, handleUnauthorized s)"
    using assms API_request_rejected [of srv s config err] by simp
  moreover have "response_rejected err s = (err, handleUnauthorized s)"
    using assms by (simp add: response_rejected_def)
  ultimately show ?thesis
    using handleUnauthorized_effect [of s] handleUnauthorized_empty_iff [of s]
      handleUnauthorized_others [of _ s] fetchAddressSuggestions_state [of geocoder key input s]
      fetchAddressSuggestions_rejected [of geocoder key input e s]
    by blast
qed

theorem unauthorized_teardown_witness:
  "API_request (\<lambda>rq. Inl \<lparr>message = ''Request failed with status code 401'',
                           response = Some \<lparr>status = 401, data = JNull\<rparr>\<rparr>)
     (get_config ''/users'' JUndefined)
     \<lparr>localStorage = [''token'' \<mapsto> ''Bearer abc'', ''user'' \<mapsto> ''u''],
      defaults_headers_common = [''Authorization'' \<mapsto> ''Bearer abc''],
      location_href = []\<rparr>
   = (Inl \<lparr>message = ''Request failed with status code 401'',
            response = Some \<lparr>status = 401, data = JNull\<rparr>\<rparr>,
      \<lparr>localStorage = Map.empty, defaults_headers_common = Map.empty,
       location_href = [''/login'']\<rparr>)
   \<and> fst (fetchAddressSuggestions
        (\<lambda>rq. Inl \<lparr>message = ''Request failed with status code 401'',
                    response = Some \<lparr>status = 401, data = JNull\<rparr>\<rparr>)
        (Some ''k'') (JStr ''Main St'')
        \<lparr>localStorage = [''token'' \<mapsto> ''Bearer abc'', ''user'' \<mapsto> ''u''],
         defaults_headers_common = [''Authorization'' \<mapsto> ''Bearer abc''],
         location_href = []\<rparr>)
     = Inl (Error ''Failed to fetch address suggestions. Please try again.'')"
proof -
  let ?err = "\<lparr>message = ''Request failed with status code 401'',
                response = Some \<lparr>status = 401, data = JNull\<rparr>\<rparr>"
  let ?s = "\<lparr>localStorage = [''token'' \<mapsto> ''Bearer abc'', ''user'' \<mapsto> ''u''],
             defaults_headers_common = [''Authorization'' \<mapsto> ''Bearer abc''],
             location_href = []\<rparr>"
  note t = unauthorized_teardown
            [of "\<lambda>rq. Inl ?err" ?s "get_config ''/users'' JUndefined" ?err
                "\<lparr>status = 401, data = JNull\<rparr>" "\<lambda>rq. Inl ?err" "Some ''k''"
                "JStr ''Main St''" ?err]
  have "API_request (\<lambda>rq. Inl ?err) (get_config ''/users'' JUndefined) ?s
          = (Inl ?err, handleUnauthorized ?s)"
    using t by simp
  moreover have "handleUnauthorized ?s
      = \<lparr>localStorage = Map.empty, defaults_headers_common = Map.empty,
         location_href = [''/login'']\<rparr>"
    by (simp add: handleUnauthorized_def)
  moreover have "fst (fetchAddressSuggestions (\<lambda>rq. Inl ?err) (Some ''k'') (JStr ''Main St'') ?s)
      = Inl (Error ''Failed to fetch address suggestions. Please try again.'')"
    using t by simp
  ultimately show ?thesis by simp
qed


section \<open>Login and logout\<close>

lemma loginUser_fulfilled:
  "srv (sent s (post_config ''/auth/login''
          (JObj [(''email'', em), (''password'', pw), (''organizationId'', org)]))) = Inr resp
   \<Longrightarrow> get_prop (data resp) ''token'' = Some tok
   \<Longrightarrow> loginUser srv em pw org s =
        (Inr \<lparr>token = ''Bearer '' @ js_to_string tok,
              role = opt_prop (data resp) ''role'',
              email = em,
              userId = opt_prop (data resp) ''userId'',
              firstName = opt_prop (data resp) ''firstName'',
              lastName = opt_prop (data resp) ''lastName'',
              organizationId = org,
              departmentId = opt_prop (data resp) ''departmentId'',
              isAuthenticated = True\<rparr>,
         s\<lparr>localStorage := (localStorage s)(''token'' \<mapsto> ''Bearer '' @ js_to_string tok)\<rparr>)"
  by (simp add: loginUser_def API_post_def API_request_fulfilled Let_def)

text \<open>
  C3, evaluated on the code: \<^verbatim>\<open>loginUser\<close> puts the marker in front of whatever token
  the server returns. For the server token \<^verbatim>\<open>Bearer abc\<close> the value written to the
  \<^verbatim>\<open>token\<close> entry is \<^verbatim>\<open>Bearer Bearer abc\<close>, which carries the marker twice, while the
  request interceptor's computation leaves a token that starts with the marker alone.
\<close>

theorem loginUser_double_prefix:
  "localStorage (snd (loginUser
       (\<lambda>rq. Inr \<lparr>status = 200, data = JObj [(''token'', JStr ''Bearer abc'')]\<rparr>)
       (JStr ''a@b.c'') (JStr ''pw'') (JNum 42)
       \<lparr>localStorage = Map.empty, defaults_headers_common = Map.empty, location_href = []\<rparr>))
     ''token'' = Some ''Bearer Bearer abc''
   \<and> bearer_prefix_count ''Bearer Bearer abc'' = 2
   \<and> bearer_header ''Bearer abc'' = ''Bearer abc''"
  by (simp add: loginUser_def API_post_def API_request_def response_fulfilled_def Let_def
        bearer_prefix_count.simps startsWith_def bearer_header_def)

text \<open>
  C4: when the login call succeeds and the response body has the token \<open>tok\<close>,
  \<^verbatim>\<open>loginUser\<close> returns normally, persists \<^verbatim>\<open>'Bearer '\<close> followed by the token under the
  \<^verbatim>\<open>token\<close> key, and the session it returns has that same token, the organization id
  the caller passed, \<^verbatim>\<open>isAuthenticated\<close> true, and the server's other fields.
\<close>

theorem loginUser_session:
  assumes "srv (sent s (post_config ''/auth/login''
          (JObj [(''email'', em), (''password'', pw), (''organizationId'', org)]))) = Inr resp"
    and "get_prop (data resp) ''token'' = Some tok"
  shows "(case loginUser srv em pw org s of
            (Inl e, s') \<Rightarrow> False
          | (Inr sess, s') \<Rightarrow>
              localStorage s' ''token'' = Some (''Bearer '' @ js_to_string tok)
              \<and> token sess = ''Bearer '' @ js_to_string tok
              \<and> organizationId sess = org
              \<and> isAuthenticated sess
              \<and> role sess = opt_prop (data resp) ''role''
              \<and> userId sess = opt_prop (data resp) ''userId''
              \<and> firstName sess = opt_prop (data resp) ''firstName''
              \<and> lastName sess = opt_prop (data resp) ''lastName''
              \<and> departmentId sess = opt_prop (data resp) ''departmentId'')"
  using loginUser_fulfilled [of srv s em pw org resp tok, OF assms] by simp

theorem loginUser_session_witness:
  "(case loginUser
           (\<lambda>rq. Inr \<lparr>status = 200,
              data = JObj [(''token'', JStr ''abc''), (''role'', JStr ''agent''),
                           (''userId'', JNum 7)]\<rparr>)
           (JStr ''a@b.c'') (JStr ''pw'') (JNum 42)
           \<lparr>localStorage = Map.empty, defaults_headers_common = Map.empty, location_href = []\<rparr> of
      (Inl e, s') \<Rightarrow> False
    | (Inr sess, s') \<Rightarrow>
        localStorage s' ''token'' = Some ''Bearer abc''
        \<and> token sess = ''Bearer abc''
        \<and> organizationId sess = JNum 42
        \<and> isAuthenticated sess
        \<and> role sess = JStr ''agent''
        \<and> userId sess = JNum 7)"
  using loginUser_session
    [of "\<lambda>rq. Inr \<lparr>status = 200,
              data = JObj [(''token'', JStr ''abc''), (''role'', JStr ''agent''),
                           (''userId'', JNum 7)]\<rparr>"
        "\<lparr>localStorage = Map.empty, defaults_headers_common = Map.empty, location_href = []\<rparr>"
        "JStr ''a@b.c''" "JStr ''pw''" "JNum 42"
        "\<lparr>status = 200,
              data = JObj [(''token'', JStr ''abc''), (''role'', JStr ''agent''),
                           (''userId'', JNum 7)]\<rparr>"
        "JStr ''abc''"]
  by (simp add: opt_prop_def split: prod.splits sum.splits)

text \<open>
  C6: after \<^verbatim>\<open>logoutUser\<close>, whether the remote call succeeded or failed, the \<^verbatim>\<open>token\<close>
  and \<^verbatim>\<open>user\<close> entries are removed and the default Authorization header is deleted;
  when the remote call failed, its error is thrown to the caller.
\<close>

theorem logoutUser_clears_session:
  "(case logoutUser srv s of
      (r, s') \<Rightarrow>
        localStorage s' ''token'' = None
        \<and> localStorage s' ''user'' = None
        \<and> defaults_headers_common s' ''Authorization'' = None
        \<and> (\<forall>err. srv (sent s (post_config ''/auth/logout'' JUndefined)) = Inl err \<longrightarrow>
               r = Inl (AxiosError err))
        \<and> (\<forall>resp. srv (sent s (post_config ''/auth/logout'' JUndefined)) = Inr resp \<longrightarrow>
               r = Inr JUndefined))"
proof (cases "srv (sent s (post_config ''/auth/logout'' JUndefined))")
  case (Inl err)
  then show ?thesis
    by (simp add: logoutUser_def API_post_def API_request_rejected)
next
  case (Inr resp)
  then show ?thesis
    by (simp add: logoutUser_def API_post_def API_request_fulfilled)
qed

theorem logoutUser_clears_session_witness:
  "logoutUser (\<lambda>rq. Inl \<lparr>message = ''Network Error'', response = None\<rparr>)
     \<lparr>localStorage = [''token'' \<mapsto> ''Bearer abc'', ''user'' \<mapsto> ''u''],
      defaults_headers_common = [''Authorization'' \<mapsto> ''Bearer abc''],
      location_href = []\<rparr>
   = (Inl (AxiosError \<lparr>message = ''Network Error'', response = None\<rparr>),
      \<lparr>localStorage = Map.empty, defaults_headers_common = Map.empty, location_href = []\<rparr>)"
proof -
  let ?srv = "\<lambda>rq::request. (Inl \<lparr>message = ''Network Error'', response = None\<rparr>
                  :: axios_error + http_response)"
  let ?s = "\<lparr>localStorage = [''token'' \<mapsto> ''Bearer abc'', ''user'' \<mapsto> ''u''],
      defaults_headers_common = [''Authorization'' \<mapsto> ''Bearer abc''],
      location_href = []\<rparr>"
  obtain r s' where rs: "logoutUser ?srv ?s = (r, s')" by (cases "logoutUser ?srv ?s")
  have "r = Inl (AxiosError \<lparr>message = ''Network Error'', response = None\<rparr>)"
    using logoutUser_clears_session [of ?srv ?s] rs by simp
  moreover have "s' = \<lparr>localStorage = Map.empty, defaults_headers_common = Map.empty,
                        location_href = []\<rparr>"
    using rs by (simp add: logoutUser_def API_post_def API_request_def response_rejected_def)
  ultimately show ?thesis using rs by simp
qed


section \<open>Not found as an empty result\<close>

text \<open>
  C5: when its call fails, \<^verbatim>\<open>getWorkflowForComplaint\<close> returns \<^verbatim>\<open>null\<close> if the response
  has status 404 and throws otherwise (the server's payload, or the error's message);
  \<^verbatim>\<open>getFeedbackByComplaint\<close> likewise returns \<^verbatim>\<open>null\<close> on 404 and throws otherwise
  (the error itself).
\<close>

theorem not_found_returns_null:
  "(srv (sent s (get_config (''/workflows/complaint/'' @ js_to_string complaintId) JUndefined))
       = Inl err \<longrightarrow>
      fst (getWorkflowForComplaint srv complaintId s)
        = (if map_option status (response err) = Some 404 then Inr JNull
           else Inl (Thrown (data_or_message err))))
   \<and> (srv (sent s (get_config (''/feedback/complaint/'' @ js_to_string complaintId) JUndefined))
       = Inl err \<longrightarrow>
      fst (getFeedbackByComplaint srv complaintId s)
        = (if map_option status (response err) = Some 404 then Inr JNull
           else Inl (AxiosError err)))"
proof (intro conjI impI)
  assume "srv (sent s (get_config (''/workflows/complaint/'' @ js_to_string complaintId)
                 JUndefined)) = Inl err"
  then show "fst (getWorkflowForComplaint srv complaintId s)
        = (if map_option status (response err) = Some 404 then Inr JNull
           else Inl (Thrown (data_or_message err)))"
    by (simp add: getWorkflowForComplaint_def API_get_def API_request_sent)
next
  assume "srv (sent s (get_config (''/feedback/complaint/'' @ js_to_string complaintId)
                 JUndefined)) = Inl err"
  then show "fst (getFeedbackByComplaint srv complaintId s)
        = (if map_option status (response err) = Some 404 then Inr JNull
           else Inl (AxiosError err))"
    by (simp add: getFeedbackByComplaint_def API_get_def API_request_sent)
qed

theorem not_found_returns_null_witness:
  "fst (getWorkflowForComplaint
          (\<lambda>rq. Inl \<lparr>message = ''Request failed with status code 404'',
                      response = Some \<lparr>status = 404, data = JObj [(''msg'', JStr ''none'')]\<rparr>\<rparr>)
          (JNum 12)
          \<lparr>localStorage = Map.empty, defaults_headers_common = Map.empty, location_href = []\<rparr>)
     = Inr JNull
   \<and> fst (getFeedbackByComplaint
          (\<lambda>rq. Inl \<lparr>message = ''Request failed with status code 500'',
                      response = Some \<lparr>status = 500, data = JNull\<rparr>\<rparr>)
          (JNum 12)
          \<lparr>localStorage = Map.empty, defaults_headers_common = Map.empty, location_href = []\<rparr>)
     = Inl (AxiosError \<lparr>message = ''Request failed with status code 500'',
                        response = Some \<lparr>status = 500, data = JNull\<rparr>\<rparr>)"
  using not_found_returns_null
     [of "\<lambda>rq. Inl \<lparr>message = ''Request failed with status code 404'',
                      response = Some \<lparr>status = 404, data = JObj [(''msg'', JStr ''none'')]\<rparr>\<rparr>"
         "\<lparr>localStorage = Map.empty, defaults_headers_common = Map.empty, location_href = []\<rparr>"
         "JNum 12"
         "\<lparr>message = ''Request failed with status code 404'',
                      response = Some \<lparr>status = 404, data = JObj [(''msg'', JStr ''none'')]\<rparr>\<rparr>"]
    not_found_returns_null
     [of "\<lambda>rq. Inl \<lparr>message = ''Request failed with status code 500'',
                      response = Some \<lparr>status = 500, data = JNull\<rparr>\<rparr>"
         "\<lparr>localStorage = Map.empty, defaults_headers_common = Map.empty, location_href = []\<rparr>"
         "JNum 12"
         "\<lparr>message = ''Request failed with status code 500'',
                      response = Some \<lparr>status = 500, data = JNull\<rparr>\<rparr>"]
  by simp



section \<open>Organization registration\<close>

text \<open>
  What \<^verbatim>\<open>registerOrganization\<close> gives its caller: on a rejected call an Error with the
  server's \<^verbatim>\<open>msg\<close> when that is truthy and with the fixed fallback message otherwise;
  on a fulfilled call the response body when its \<^verbatim>\<open>organizationId\<close> is truthy, and
  otherwise, again, an Error with the fallback message, since the Error thrown in the try
  block for the missing id is caught by the function's own catch block.
\<close>

lemma registerOrganization_rejected:
  assumes "srv (sent s (post_config ''/organizations/register'' organizationData)) = Inl err"
  shows "fst (registerOrganization srv organizationData s)
    = Inl (Error (if truthy (opt_prop (response_data (response err)) ''msg'')
                  then js_to_string (opt_prop (response_data (response err)) ''msg'')
                  else ''Failed to register organization. Please try again.''))"
  using assms
  by (simp add: registerOrganization_def API_post_def API_request_sent
        registerOrganization_catch_def Let_def)

lemma registerOrganization_fulfilled:
  assumes "srv (sent s (post_config ''/organizations/register'' organizationData)) = Inr resp"
  shows "fst (registerOrganization srv organizationData s)
    = (if truthy (opt_prop (data resp) ''organizationId'') then Inr (data resp)
       else Inl (Error ''Failed to register organization. Please try again.''))"
  using assms
  by (cases "data resp")
     (simp_all add: registerOrganization_def API_post_def API_request_sent
        registerOrganization_catch_def response_data_def opt_prop_def Let_def)

lemma registerOrganization_returns:
  assumes "fst (registerOrganization srv organizationData s) = Inr v"
  shows "truthy (opt_prop v ''organizationId'')"
proof (cases "srv (sent s (post_config ''/organizations/register'' organizationData))")
  case (Inl err)
  then show ?thesis
    using assms registerOrganization_rejected [of srv s organizationData err] by simp
next
  case (Inr resp)
  then show ?thesis
    using assms registerOrganization_fulfilled [of srv s organizationData resp]
    by (simp split: if_splits)
qed

text \<open>
  C10, evaluated on the code: the call succeeds with a body that has no
  \<^verbatim>\<open>organizationId\<close>. The caller receives an Error with the message
  \<^verbatim>\<open>Failed to register organization. Please try again.\<close>, not with the message
  \<^verbatim>\<open>Organization ID not received in response\<close> that the try block throws.
\<close>

theorem registerOrganization_missing_id:
  "registerOrganization (\<lambda>rq. Inr \<lparr>status = 201, data = JObj [(''name'', JStr ''Acme'')]\<rparr>)
     (JObj [(''name'', JStr ''Acme'')])
     \<lparr>localStorage = Map.empty, defaults_headers_common = Map.empty, location_href = []\<rparr>
   = (Inl (Error ''Failed to register organization. Please try again.''),
      \<lparr>localStorage = Map.empty, defaults_headers_common = Map.empty, location_href = []\<rparr>)"
  by (simp add: registerOrganization_def API_post_def API_request_def response_fulfilled_def
        registerOrganization_catch_def response_data_def opt_prop_def)


section \<open>Filter and params objects\<close>

lemma sent_keeps:
  "params (sent s config) = params config" "url (sent s config) = url config"
  "http_method (sent s config) = http_method config" "body (sent s config) = body config"
  by (simp_all add: sent_def request_interceptor_def API_config_def split: option.splits)

lemma append_if_set_forwarded:
  "ps \<noteq> JNull \<Longrightarrow> ps \<noteq> JUndefined \<Longrightarrow>
     append_if_set ps k q = Some (q @ forwarded [k] ps)"
  by (cases ps) (simp_all add: append_if_set_def forwarded_def opt_prop_def)

lemma forwarded_append: "forwarded (ks @ ks') ps = forwarded ks ps @ forwarded ks' ps"
  by (simp add: forwarded_def)

lemma forwarded_default_empty: "forwarded keys (default_empty ps) = forwarded keys ps"
  by (simp add: forwarded_def default_empty_def opt_prop_def)

lemma getAllFeedback_queryParams_forwarded:
  assumes "ps \<noteq> JNull"
  shows "getAllFeedback_queryParams (default_empty ps)
           = Some (forwarded [''page'', ''limit'', ''rating'', ''department''] ps)"
proof -
  have d: "default_empty ps \<noteq> JNull" "default_empty ps \<noteq> JUndefined"
    using assms by (simp_all add: default_empty_def)
  have "getAllFeedback_queryParams (default_empty ps)
          = Some (forwarded ([''page''] @ [''limit''] @ [''rating''] @ [''department''])
                    (default_empty ps))"
    unfolding forwarded_append
    by (simp add: getAllFeedback_queryParams_def append_if_set_forwarded [OF d])
  then show ?thesis by (simp add: forwarded_default_empty)
qed

lemma getFeedbackByDepartment_queryParams_forwarded:
  assumes "ps \<noteq> JNull"
  shows "getFeedbackByDepartment_queryParams (default_empty ps)
           = Some (forwarded [''page'', ''limit'', ''rating''] ps)"
proof -
  have d: "default_empty ps \<noteq> JNull" "default_empty ps \<noteq> JUndefined"
    using assms by (simp_all add: default_empty_def)
  have "getFeedbackByDepartment_queryParams (default_empty ps)
          = Some (forwarded ([''page''] @ [''limit''] @ [''rating'']) (default_empty ps))"
    unfolding forwarded_append
    by (simp add: getFeedbackByDepartment_queryParams_def append_if_set_forwarded [OF d])
  then show ?thesis by (simp add: forwarded_default_empty)
qed

lemma forwarded_cong:
  "(\<And>k. k \<in> set keys \<Longrightarrow> map_of kvs k = map_of kvs' k) \<Longrightarrow>
     forwarded keys (JObj kvs) = forwarded keys (JObj kvs')"
  unfolding forwarded_def
  by (rule arg_cong [where f = concat], rule map_cong) (simp_all add: opt_prop_def)

text \<open>
  An input at which a key of the params object is not forwarded (C9): the server below
  answers with the URL and the params it received. Called with the keys \<^verbatim>\<open>page\<close> and
  \<^verbatim>\<open>status\<close>, \<^verbatim>\<open>getAllFeedback\<close> sends \<^verbatim>\<open>/feedback?page=2\<close> and no params: the key
  \<^verbatim>\<open>status\<close> is gone.
\<close>

theorem getAllFeedback_drops_keys:
  "fst (getAllFeedback
          (\<lambda>rq. Inr \<lparr>status = 200,
                      data = JObj [(''url'', JStr (url rq)), (''params'', params rq)]\<rparr>)
          (JObj [(''page'', JNum 2), (''status'', JStr ''open'')])
          \<lparr>localStorage = Map.empty, defaults_headers_common = Map.empty, location_href = []\<rparr>)
     = Inr (JObj [(''url'', JStr ''/feedback?page=2''), (''params'', JUndefined)])"
  by (simp add: getAllFeedback_def getAllFeedback_queryParams_def append_if_set_def
        default_empty_def API_get_def API_request_sent sent_keeps get_config_def
        int_to_string_def nat_digits.simps digit_char_def
        form_encode_def form_encode_char_def form_unreserved_def)

text \<open>
  C9, as the code has it: \<^verbatim>\<open>getComplaints\<close> (and \<^verbatim>\<open>getNotifications\<close>) hands its
  filter object, whole and unchecked, to the HTTP client as the params of the request. \<^verbatim>\<open>getAllFeedback\<close> and
  \<^verbatim>\<open>getFeedbackByDepartment\<close> build the query string themselves, the first from the keys
  \<^verbatim>\<open>page\<close>, \<^verbatim>\<open>limit\<close>, \<^verbatim>\<open>rating\<close> and \<^verbatim>\<open>department\<close>, the second from \<^verbatim>\<open>page\<close>,
  \<^verbatim>\<open>limit\<close> and \<^verbatim>\<open>rating\<close>, each key only when its value is truthy; two params objects
  that agree on these keys give the same call, whatever other keys they have.
\<close>

theorem list_endpoint_params:
  "params (sent s (get_config ''/complaints'' (default_empty filters))) = default_empty filters
   \<and> fst (getComplaints srv filters s)
       = (case srv (sent s (get_config ''/complaints'' (default_empty filters))) of
            Inr resp \<Rightarrow> Inr (data resp)
          | Inl err \<Rightarrow> Inl (Thrown (data_or_message err)))
   \<and> fst (getNotifications srv filters s)
       = (case srv (sent s (get_config ''/notifications'' (default_empty filters))) of
            Inr resp \<Rightarrow> Inr (data resp)
          | Inl err \<Rightarrow> Inl (AxiosError err))
   \<and> (ps \<noteq> JNull \<longrightarrow>
        fst (getAllFeedback srv ps s)
          = (case srv (sent s (get_config
                 (''/feedback?'' @ URLSearchParams_toString
                    (forwarded [''page'', ''limit'', ''rating'', ''department''] ps))
                 JUndefined)) of
               Inr resp \<Rightarrow> Inr (data resp)
             | Inl err \<Rightarrow> Inl (AxiosError err)))
   \<and> (ps \<noteq> JNull \<longrightarrow>
        fst (getFeedbackByDepartment srv dep ps s)
          = (case srv (sent s (get_config
                 (''/feedback/department/'' @ js_to_string dep @ ''?'' @ URLSearchParams_toString
                    (forwarded [''page'', ''limit'', ''rating''] ps))
                 JUndefined)) of
               Inr resp \<Rightarrow> Inr (data resp)
             | Inl err \<Rightarrow> Inl (AxiosError err)))
   \<and> ((\<forall>k \<in> set [''page'', ''limit'', ''rating'', ''department''].
          map_of kvs k = map_of kvs' k) \<longrightarrow>
        getAllFeedback srv (JObj kvs) s = getAllFeedback srv (JObj kvs') s)"
proof (intro conjI impI)
  show "params (sent s (get_config ''/complaints'' (default_empty filters)))
          = default_empty filters"
    by (simp add: sent_keeps get_config_def)
  show "fst (getComplaints srv filters s)
       = (case srv (sent s (get_config ''/complaints'' (default_empty filters))) of
            Inr resp \<Rightarrow> Inr (data resp)
          | Inl err \<Rightarrow> Inl (Thrown (data_or_message err)))"
    by (simp add: getComplaints_def API_get_def API_request_sent split: sum.splits)
  show "fst (getNotifications srv filters s)
       = (case srv (sent s (get_config ''/notifications'' (default_empty filters))) of
            Inr resp \<Rightarrow> Inr (data resp)
          | Inl err \<Rightarrow> Inl (AxiosError err))"
    by (simp add: getNotifications_def API_get_def API_request_sent split: sum.splits)
next
  assume "ps \<noteq> JNull"
  then show "fst (getAllFeedback srv ps s)
          = (case srv (sent s (get_config
                 (''/feedback?'' @ URLSearchParams_toString
                    (forwarded [''page'', ''limit'', ''rating'', ''department''] ps))
                 JUndefined)) of
               Inr resp \<Rightarrow> Inr (data resp)
             | Inl err \<Rightarrow> Inl (AxiosError err))"
    by (simp add: getAllFeedback_def getAllFeedback_queryParams_forwarded API_get_def
          API_request_sent split: sum.splits)
next
  assume "ps \<noteq> JNull"
  then show "fst (getFeedbackByDepartment srv dep ps s)
          = (case srv (sent s (get_config
                 (''/feedback/department/'' @ js_to_string dep @ ''?'' @ URLSearchParams_toString
                    (forwarded [''page'', ''limit'', ''rating''] ps))
                 JUndefined)) of
               Inr resp \<Rightarrow> Inr (data resp)
             | Inl err \<Rightarrow> Inl (AxiosError err))"
    by (simp add: getFeedbackByDepartment_def getFeedbackByDepartment_queryParams_forwarded
          API_get_def API_request_sent split: sum.splits)
next
  assume a: "\<forall>k \<in> set [''page'', ''limit'', ''rating'', ''department''].
          map_of kvs k = map_of kvs' k"
  have "forwarded [''page'', ''limit'', ''rating'', ''department''] (JObj kvs)
          = forwarded [''page'', ''limit'', ''rating'', ''department''] (JObj kvs')"
    by (rule forwarded_cong) (use a in blast)
  then show "getAllFeedback srv (JObj kvs) s = getAllFeedback srv (JObj kvs') s"
    using getAllFeedback_queryParams_forwarded [of "JObj kvs"]
      getAllFeedback_queryParams_forwarded [of "JObj kvs'"]
    by (simp add: getAllFeedback_def)
qed

theorem list_endpoint_params_witness:
  "params (sent \<lparr>localStorage = Map.empty, defaults_headers_common = Map.empty,
                  location_href = []\<rparr>
            (get_config ''/complaints'' (JObj [(''status'', JStr ''open'')])))
     = JObj [(''status'', JStr ''open'')]
   \<and> getAllFeedback (\<lambda>rq. Inr \<lparr>status = 200, data = JStr (url rq)\<rparr>)
         (JObj [(''page'', JNum 2), (''status'', JStr ''open'')])
         \<lparr>localStorage = Map.empty, defaults_headers_common = Map.empty, location_href = []\<rparr>
     = getAllFeedback (\<lambda>rq. Inr \<lparr>status = 200, data = JStr (url rq)\<rparr>)
         (JObj [(''page'', JNum 2)])
         \<lparr>localStorage = Map.empty, defaults_headers_common = Map.empty, location_href = []\<rparr>"
  using list_endpoint_params
    [of "\<lparr>localStorage = Map.empty, defaults_headers_common = Map.empty, location_href = []\<rparr>"
        "JObj [(''status'', JStr ''open'')]"
        "\<lambda>rq. Inr \<lparr>status = 200, data = JStr (url rq)\<rparr>"
        "JObj []" JUndefined
        "[(''page'', JNum 2), (''status'', JStr ''open'')]"
        "[(''page'', JNum 2)]"]
  by (simp add: default_empty_def)


section \<open>Route registration order\<close>

lemma take_shorter: "take n xs = ys \<Longrightarrow> m \<le> n \<Longrightarrow> take m xs = take m ys"
  by (metis min.absorb1 take_take)

lemma mount_mismatch:
  assumes "mount_matches q path"
    and "length p \<le> length q"
    and "take (length p) (map ascii_lower q) \<noteq> map ascii_lower p"
  shows "\<not> mount_matches p path"
proof
  assume "mount_matches p path"
  then have "take (length p) (map ascii_lower path) = map ascii_lower p"
    by (simp add: mount_matches_def)
  moreover have "take (length q) (map ascii_lower path) = map ascii_lower q"
    using assms(1) by (simp add: mount_matches_def)
  ultimately have "take (length p) (map ascii_lower q) = map ascii_lower p"
    using take_shorter [of "length q" "map ascii_lower path" "map ascii_lower q" "length p"]
      assms(2)
    by simp
  with assms(3) show False by simp
qed

lemma types_path_other_mounts:
  assumes "mount_matches ''/api/complaints/types'' path"
  shows "\<not> mount_matches ''/uploads'' path"
    and "\<not> mount_matches ''/api/organizations'' path"
    and "\<not> mount_matches ''/api/auth'' path"
    and "\<not> mount_matches ''/api/users'' path"
    and "\<not> mount_matches ''/api/departments'' path"
  by (rule mount_mismatch [OF assms]; simp add: ascii_lower_def)+

lemma dispatch_types:
  assumes "mount_matches ''/api/complaints/types'' path"
  shows "dispatch bootstrap1_mounts path = Some complaintTypeRoutes"
    and "dispatch bootstrap2_mounts path = Some complaintTypeRoutes"
    and "dispatch bootstrap3_mounts path = Some complaintTypeRoutes"
  using assms types_path_other_mounts [OF assms]
  by (simp_all add: bootstrap1_mounts_def bootstrap2_mounts_def bootstrap3_mounts_def)

lemma types_registered_first:
  "registered_before (''/api/complaints/types'', complaintTypeRoutes)
      (''/api/complaints'', complaintRoutes) bootstrap1_mounts"
  "registered_before (''/api/complaints/types'', complaintTypeRoutes)
      (''/api/complaints'', complaintRoutes) bootstrap2_mounts"
  "registered_before (''/api/complaints/types'', complaintTypeRoutes)
      (''/api/complaints'', complaintRoutes) bootstrap3_mounts"
  by (simp_all add: bootstrap1_mounts_def bootstrap2_mounts_def bootstrap3_mounts_def)

text \<open>
  C7: in each of the three bootstrap files the complaint-type routes are registered under
  \<^verbatim>\<open>/api/complaints/types\<close> before the complaint routes are registered under
  \<^verbatim>\<open>/api/complaints\<close>, and every request path under the mount
  \<^verbatim>\<open>/api/complaints/types\<close> (the prefix itself, or the prefix continued by \<^verbatim>\<open>/\<close>) is
  dispatched to the complaint-type routes, not to the complaint routes whose prefix it
  also matches.
\<close>

theorem complaint_types_take_precedence:
  "\<forall>mounts \<in> set bootstraps.
     registered_before (''/api/complaints/types'', complaintTypeRoutes)
        (''/api/complaints'', complaintRoutes) mounts
     \<and> (\<forall>path. mount_matches ''/api/complaints/types'' path \<longrightarrow>
            dispatch mounts path = Some complaintTypeRoutes)"
  using types_registered_first dispatch_types by (simp add: bootstraps_def)

theorem complaint_types_take_precedence_witness:
  "bootstrap2_mounts \<in> set bootstraps
   \<and> registered_before (''/api/complaints/types'', complaintTypeRoutes)
        (''/api/complaints'', complaintRoutes) bootstrap2_mounts
   \<and> mount_matches ''/api/complaints/types'' ''/api/complaints/types/42''
   \<and> dispatch bootstrap2_mounts ''/api/complaints/types/42'' = Some complaintTypeRoutes
   \<and> mount_matches ''/api/complaints/types'' ''/api/complaints/types''
   \<and> dispatch bootstrap2_mounts ''/api/complaints/types'' = Some complaintTypeRoutes"
proof -
  have m: "bootstrap2_mounts \<in> set bootstraps" by (simp add: bootstraps_def)
  have a: "mount_matches ''/api/complaints/types'' ''/api/complaints/types/42''"
    by (simp add: mount_matches_def ascii_lower_def)
  have b: "mount_matches ''/api/complaints/types'' ''/api/complaints/types''"
    by (simp add: mount_matches_def ascii_lower_def)
  show ?thesis
    using complaint_types_take_precedence m a b by blast
qed


section \<open>The error-handling middleware\<close>








end
